theory Spec2Isabelle
  imports Main
begin

section \<open>Thrown values and responses\<close>

text \<open>
  Every step of the endpoint is an awaited call into the runtime or the account-abstraction
  SDK; it either returns a value or throws. The runtime and the SDK throw \<open>Error\<close> objects,
  so a thrown value is an error name and a message. \<open>String_of\<close> is \<open>String(err)\<close>, that is
  \<open>Error.prototype.toString\<close>; \<open>message_or_String\<close> is \<open>err.message || String(err)\<close>
  (the empty message is falsy).
\<close>

datatype exn = Exn (exn_name: string) (exn_message: string)

definition String_of :: "exn \<Rightarrow> string" where
  "String_of e =
     (if exn_name e = [] then exn_message e
      else if exn_message e = [] then exn_name e
      else exn_name e @ '': '' @ exn_message e)"

definition message_or_String :: "exn \<Rightarrow> string" where
  "message_or_String e = (if exn_message e \<noteq> [] then exn_message e else String_of e)"

text \<open>
  The JSON bodies the endpoint answers with: \<open>{address}\<close>, \<open>{userOpHash}\<close>, \<open>{error}\<close>.
  \<open>NextResponse.json(body)\<close> answers with status 200, \<open>NextResponse.json(body, {status})\<close>
  with the status given.
\<close>

datatype payload = Address string | UserOpHash string | Error string

record response =
  payload :: payload
  status :: nat

definition json :: "payload \<Rightarrow> response" where
  "json p = \<lparr>payload = p, status = 200\<rparr>"

definition json_status :: "payload \<Rightarrow> nat \<Rightarrow> response" where
  "json_status p s = \<lparr>payload = p, status = s\<rparr>"

section \<open>Calls, user operations and the events of a request\<close>

text \<open>
  A call of the request body is \<open>{to, data}\<close>, with whatever \<open>value\<close> the caller added
  (\<open>req_value\<close>, absent by default). A call handed to the SDK is \<open>{to, value, data}\<close> with a
  bigint value. A user operation is submitted either with encoded \<open>callData\<close> or with a list
  of \<open>calls\<close>, and with the \<open>preVerificationGas\<close> the endpoint sets.
\<close>

record req_call =
  to :: string
  data :: string
  req_value :: "int option"

record sub_call =
  sub_to :: string
  sub_value :: int
  sub_data :: string

datatype op_payload = CallData string | Calls "sub_call list"

record userop =
  op_payload :: op_payload
  preVerificationGas :: int

text \<open>
  The log of a request: every call the endpoint makes outside itself, in order, with the
  outcome it got (\<open>Inl\<close> the thrown error). \<open>ReqJson\<close> carries the \<open>calls\<close> member of the
  parsed body (\<open>None\<close> when the body has none); \<open>ReadContract token owner spender\<close> is the
  \<open>allowance(owner, spender)\<close> read on \<open>token\<close>; \<open>SetTimeout ms\<close> is the awaited timer.
\<close>

datatype event =
    ReqJson "exn + req_call list option"
  | PrivateKeyToAccount string "exn + unit"
  | CreatePublicClient string "exn + unit"
  | SignerToEcdsaValidator "exn + unit"
  | CreateKernelAccount "exn + string"
  | CreateZeroDevPaymasterClient string "exn + unit"
  | CreateKernelAccountClient string "exn + unit"
  | EncodeCalls "sub_call list" "exn + string"
  | SendUserOperation userop "exn + string"
  | WaitForUserOperationReceipt string "exn + unit"
  | SetTimeout nat
  | ReadContract string string string "exn + int"
  | ConsoleError string exn

text \<open>
  The surroundings of the endpoint: the two variables of the process environment, the request
  body, and the answers of the SDK and of the chain. An answer may depend on everything that
  happened before (the log so far), so two submissions of the same operation can get two
  handles. \<open>createKernelAccount\<close> answers with the address of the derived account.
\<close>

record env =
  PRIVATE_KEY :: "string option"
  ZERODEV_RPC :: "string option"
  req_json :: "event list \<Rightarrow> exn + req_call list option"
  privateKeyToAccount :: "event list \<Rightarrow> string \<Rightarrow> exn + unit"
  createPublicClient :: "event list \<Rightarrow> string \<Rightarrow> exn + unit"
  signerToEcdsaValidator :: "event list \<Rightarrow> exn + unit"
  createKernelAccount :: "event list \<Rightarrow> exn + string"
  createZeroDevPaymasterClient :: "event list \<Rightarrow> string \<Rightarrow> exn + unit"
  createKernelAccountClient :: "event list \<Rightarrow> string \<Rightarrow> exn + unit"
  encodeCalls :: "event list \<Rightarrow> sub_call list \<Rightarrow> exn + string"
  sendUserOperation :: "event list \<Rightarrow> userop \<Rightarrow> exn + string"
  waitForUserOperationReceipt :: "event list \<Rightarrow> string \<Rightarrow> exn + unit"
  readContract :: "event list \<Rightarrow> string \<Rightarrow> string \<Rightarrow> string \<Rightarrow> exn + int"

section \<open>Sequencing: await, throw, try and catch\<close>

text \<open>
  A piece of the handler takes the log so far and gives its result, a value or a thrown
  error, with the log extended. \<open>perform\<close> awaits one outside call and records it;
  \<open>bind_prog\<close> runs the rest only when the first part did not throw; \<open>try_catch\<close> hands a
  thrown error to the handler of the \<open>catch\<close> block.
\<close>

type_synonym ('e, 'a) prog = "'e list \<Rightarrow> (exn + 'a) \<times> 'e list"

definition perform :: "('e list \<Rightarrow> exn + 'a) \<Rightarrow> (exn + 'a \<Rightarrow> 'e) \<Rightarrow> ('e, 'a) prog" where
  "perform f mk log = (let r = f log in (r, log @ [mk r]))"

definition emit :: "'e \<Rightarrow> ('e, unit) prog" where
  "emit e log = (Inr (), log @ [e])"

definition return :: "'a \<Rightarrow> ('e, 'a) prog" where
  "return a log = (Inr a, log)"

definition throw :: "exn \<Rightarrow> ('e, 'a) prog" where
  "throw e log = (Inl e, log)"

definition bind_prog :: "('e, 'a) prog \<Rightarrow> ('a \<Rightarrow> ('e, 'b) prog) \<Rightarrow> ('e, 'b) prog" where
  "bind_prog m k log =
     (case m log of (Inl e, log') \<Rightarrow> (Inl e, log') | (Inr a, log') \<Rightarrow> k a log')"

definition try_catch :: "('e, 'a) prog \<Rightarrow> (exn \<Rightarrow> ('e, 'a) prog) \<Rightarrow> ('e, 'a) prog" where
  "try_catch m h log =
     (case m log of (Inl e, log') \<Rightarrow> h e log' | (Inr a, log') \<Rightarrow> (Inr a, log'))"

section \<open>The endpoint: route.ts\<close>

text \<open>
  \<open>!privateKey || !ZERODEV_RPC\<close>: a variable is falsy when it is not set or is the empty
  string. \<open>env_string\<close> reads a variable that passed the check.
\<close>

definition falsy :: "string option \<Rightarrow> bool" where
  "falsy v = (case v of None \<Rightarrow> True | Some s \<Rightarrow> s = [])"

definition env_string :: "string option \<Rightarrow> string" where
  "env_string v = (case v of None \<Rightarrow> [] | Some s \<Rightarrow> s)"

definition GET :: "env \<Rightarrow> (exn + response) \<times> event list" where
  "GET env =
     (let privateKey = PRIVATE_KEY env; rpc = ZERODEV_RPC env in
      if falsy privateKey \<or> falsy rpc
      then return (json_status (Error ''Missing env vars'') 500) []
      else
        try_catch
          (bind_prog (perform (\<lambda>l. privateKeyToAccount env l (env_string privateKey))
                        (PrivateKeyToAccount (env_string privateKey))) (\<lambda>signer.
           bind_prog (perform (\<lambda>l. createPublicClient env l (env_string rpc))
                        (CreatePublicClient (env_string rpc))) (\<lambda>publicClient.
           bind_prog (perform (signerToEcdsaValidator env) SignerToEcdsaValidator) (\<lambda>validator.
           bind_prog (perform (createKernelAccount env) CreateKernelAccount) (\<lambda>address.
           return (json (Address address)))))))
          (\<lambda>err.
             bind_prog (emit (ConsoleError ''API /api/smartaccount GET error:'' err)) (\<lambda>_.
             return (json_status (Error (String_of err)) 500)))
          [])"

text \<open>
  The first \<open>try\<close> block of the two-call branch (approve). Its result is the response of a
  \<open>return\<close> statement reached in the block or in its \<open>catch\<close>, or \<open>None\<close> when control
  falls through to the swap.
\<close>

definition POST_approve :: "env \<Rightarrow> req_call list \<Rightarrow> string \<Rightarrow> (event, response option) prog" where
  "POST_approve env calls address =
     try_catch
       (bind_prog (perform (\<lambda>l. encodeCalls env l
                      [\<lparr>sub_to = to (calls ! 0), sub_value = 0, sub_data = data (calls ! 0)\<rparr>])
                    (EncodeCalls
                      [\<lparr>sub_to = to (calls ! 0), sub_value = 0, sub_data = data (calls ! 0)\<rparr>]))
          (\<lambda>approveCallData.
        bind_prog (perform (\<lambda>l. sendUserOperation env l
                      \<lparr>op_payload = CallData approveCallData, preVerificationGas = 70000\<rparr>)
                    (SendUserOperation
                      \<lparr>op_payload = CallData approveCallData, preVerificationGas = 70000\<rparr>))
          (\<lambda>approveUserOpHash.
        bind_prog (perform (\<lambda>l. waitForUserOperationReceipt env l approveUserOpHash)
                    (WaitForUserOperationReceipt approveUserOpHash))
          (\<lambda>approveReceipt.
        bind_prog (emit (SetTimeout 30000)) (\<lambda>_.
        bind_prog (perform (\<lambda>l. readContract env l (to (calls ! 0)) address (to (calls ! 1)))
                    (ReadContract (to (calls ! 0)) address (to (calls ! 1))))
          (\<lambda>allowance.
        if allowance = 0
        then return (Some (json_status (Error ''Allowance not updated'') 400))
        else return None))))))
       (\<lambda>approveErr.
          bind_prog (emit (ConsoleError ''Approve step failed:'' approveErr)) (\<lambda>_.
          return (Some (json_status
            (Error (''Approve failed: '' @ message_or_String approveErr)) 500))))"

text \<open>The second \<open>try\<close> block of the two-call branch (swap).\<close>

definition POST_swap :: "env \<Rightarrow> req_call list \<Rightarrow> (event, response) prog" where
  "POST_swap env calls =
     try_catch
       (bind_prog (perform (\<lambda>l. encodeCalls env l
                      [\<lparr>sub_to = to (calls ! 1), sub_value = 0, sub_data = data (calls ! 1)\<rparr>])
                    (EncodeCalls
                      [\<lparr>sub_to = to (calls ! 1), sub_value = 0, sub_data = data (calls ! 1)\<rparr>]))
          (\<lambda>swapCallData.
        bind_prog (perform (\<lambda>l. sendUserOperation env l
                      \<lparr>op_payload = CallData swapCallData, preVerificationGas = 70000\<rparr>)
                    (SendUserOperation
                      \<lparr>op_payload = CallData swapCallData, preVerificationGas = 70000\<rparr>))
          (\<lambda>swapUserOpHash.
        return (json (UserOpHash swapUserOpHash)))))
       (\<lambda>swapErr.
          bind_prog (emit (ConsoleError ''Swap step failed:'' swapErr)) (\<lambda>_.
          return (json_status (Error (''Swap failed: '' @ message_or_String swapErr)) 500)))"

text \<open>The \<open>else\<close> branch: all calls in one user operation.\<close>

definition POST_single :: "env \<Rightarrow> req_call list \<Rightarrow> (event, response) prog" where
  "POST_single env calls =
     try_catch
       (bind_prog (perform (\<lambda>l. sendUserOperation env l
                      \<lparr>op_payload = Calls (map (\<lambda>call.
                           \<lparr>sub_to = to call, sub_value = 0, sub_data = data call\<rparr>) calls),
                       preVerificationGas = 70000\<rparr>)
                    (SendUserOperation
                      \<lparr>op_payload = Calls (map (\<lambda>call.
                           \<lparr>sub_to = to call, sub_value = 0, sub_data = data call\<rparr>) calls),
                       preVerificationGas = 70000\<rparr>))
          (\<lambda>userOpHash.
        return (json (UserOpHash userOpHash))))
       (\<lambda>singleErr.
          bind_prog (emit (ConsoleError ''Single call failed:'' singleErr)) (\<lambda>_.
          return (json_status (Error (message_or_String singleErr)) 500)))"

text \<open>
  \<open>calls.length\<close> throws a \<open>TypeError\<close> when the body has no \<open>calls\<close> member; the outer
  \<open>catch\<close> receives it like any other error of the outer block.
\<close>

definition calls_length_TypeError :: exn where
  "calls_length_TypeError =
     Exn ''TypeError'' ''Cannot read properties of undefined (reading 'length')''"

definition POST :: "env \<Rightarrow> (exn + response) \<times> event list" where
  "POST env =
     (let privateKey = PRIVATE_KEY env; rpc = ZERODEV_RPC env in
      if falsy privateKey \<or> falsy rpc
      then return (json_status (Error ''Missing env vars'') 500) []
      else
        try_catch
          (bind_prog (perform (req_json env) ReqJson) (\<lambda>body_calls.
           bind_prog (perform (\<lambda>l. privateKeyToAccount env l (env_string privateKey))
                        (PrivateKeyToAccount (env_string privateKey))) (\<lambda>signer.
           bind_prog (perform (\<lambda>l. createPublicClient env l (env_string rpc))
                        (CreatePublicClient (env_string rpc))) (\<lambda>publicClient.
           bind_prog (perform (signerToEcdsaValidator env) SignerToEcdsaValidator) (\<lambda>validator.
           bind_prog (perform (createKernelAccount env) CreateKernelAccount) (\<lambda>address.
           bind_prog (perform (\<lambda>l. createZeroDevPaymasterClient env l (env_string rpc))
                        (CreateZeroDevPaymasterClient (env_string rpc))) (\<lambda>paymaster.
           bind_prog (perform (\<lambda>l. createKernelAccountClient env l (env_string rpc))
                        (CreateKernelAccountClient (env_string rpc))) (\<lambda>client.
           case body_calls of
             None \<Rightarrow> throw calls_length_TypeError
           | Some calls \<Rightarrow>
               if length calls = 2
               then bind_prog (POST_approve env calls address) (\<lambda>returned.
                      case returned of
                        Some resp \<Rightarrow> return resp
                      | None \<Rightarrow> POST_swap env calls)
               else POST_single env calls))))))))
          (\<lambda>err.
             bind_prog (emit (ConsoleError ''API /api/smartaccount POST error:'' err)) (\<lambda>_.
             return (json_status (Error (message_or_String err)) 500)))
          [])"

section \<open>The swap client: page.tsx\<close>

record token =
  address :: string
  symbol :: string

definition tokens :: "token list" where
  "tokens =
     [\<lparr>address = ''0x6c6Dc940F2E6a27921df887AD96AE586abD8EfD8'', symbol = ''USDC''\<rparr>,
      \<lparr>address = ''0x2eC77FDcb56370A3C0aDa518DDe86D820d76743B'', symbol = ''PEPE''\<rparr>]"

definition MOCK_SWAP_ADDRESS :: string where
  "MOCK_SWAP_ADDRESS = ''0x718421BB9a6Bb63D4A63295d59c12196c3e221Ed''"

text \<open>
  The contract functions the client encodes: \<open>approve(spender, amount)\<close> of the token and
  \<open>swapAToB(amount)\<close> of the swap contract. The \<open>swapStatus\<close> of the page is \<open>null\<close> until
  the first swap and then one of the strings \<open>pending\<close>, \<open>success\<close> and \<open>error\<close>
  (\<open>Failed\<close> here).
\<close>

datatype fn_call = Approve string int | SwapAToB int

datatype swap_status = Pending | Success | Failed

text \<open>
  The log of the client: the state setters of the page, the calls into viem, the two round
  trips to the endpoint (\<open>Fetch\<close> with the \<open>calls\<close> of the posted body and the \<open>ok\<close> flag of
  the response, \<open>ResJson\<close> with the \<open>error\<close> member of the parsed answer), the allowance
  reads on the chain and the timers between them.
\<close>

datatype cevent =
    SetIsSwapping bool
  | SetSwapStatus swap_status
  | ParseUnits string nat "exn + int"
  | EncodeFunctionData fn_call "exn + string"
  | Fetch "req_call list" "exn + bool"
  | ResJson "exn + string option"
  | ReadAllowance string string string "exn + int"
  | Sleep nat
  | ConsoleErrorSwap string exn

record client_env =
  parseUnits :: "string \<Rightarrow> nat \<Rightarrow> exn + int"
  encodeFunctionData :: "fn_call \<Rightarrow> exn + string"
  fetch :: "cevent list \<Rightarrow> req_call list \<Rightarrow> exn + bool"
  res_json :: "cevent list \<Rightarrow> exn + string option"
  readAllowance :: "cevent list \<Rightarrow> string \<Rightarrow> string \<Rightarrow> string \<Rightarrow> exn + int"

text \<open>
  The \<open>for\<close> loop of \<open>pollForAllowance\<close>, with its counter \<open>i\<close>: one allowance read per
  round, \<open>true\<close> as soon as a read is at least \<open>expectedAmount\<close>, a timer of 2000 ms after
  every read that is not, \<open>false\<close> when the counter reaches \<open>maxTries\<close>. A read that throws
  ends the loop with that error.
\<close>

function pollForAllowance_loop ::
  "client_env \<Rightarrow> string \<Rightarrow> string \<Rightarrow> int \<Rightarrow> string \<Rightarrow> nat \<Rightarrow> nat \<Rightarrow> (cevent, bool) prog" where
  "pollForAllowance_loop cenv owner spender expectedAmount tokenAddress maxTries i log =
     (if i < maxTries then
        (case readAllowance cenv log tokenAddress owner spender of
           Inl e \<Rightarrow> (Inl e, log @ [ReadAllowance tokenAddress owner spender (Inl e)])
         | Inr allowance \<Rightarrow>
             if allowance \<ge> expectedAmount
             then (Inr True, log @ [ReadAllowance tokenAddress owner spender (Inr allowance)])
             else pollForAllowance_loop cenv owner spender expectedAmount tokenAddress maxTries
                    (i + 1)
                    (log @ [ReadAllowance tokenAddress owner spender (Inr allowance), Sleep 2000]))
      else (Inr False, log))"
  by pat_completeness auto
termination
  by (relation "measure (\<lambda>(cenv, owner, spender, expectedAmount, tokenAddress, maxTries, i, log).
        maxTries - i)") auto

text \<open>\<open>maxTries = 20\<close> is the default of the parameter: \<open>None\<close> is the call without it.\<close>

definition pollForAllowance ::
  "client_env \<Rightarrow> string \<Rightarrow> string \<Rightarrow> int \<Rightarrow> string \<Rightarrow> nat option \<Rightarrow> (cevent, bool) prog" where
  "pollForAllowance cenv owner spender expectedAmount tokenAddress maxTries =
     pollForAllowance_loop cenv owner spender expectedAmount tokenAddress
       (case maxTries of None \<Rightarrow> 20 | Some n \<Rightarrow> n) 0"

text \<open>
  The state of the page that \<open>handleSwap\<close> reads: the amount typed, the smart-account
  address (absent until the hook has loaded it), the source token, and the balances and
  decimals fetched for the tokens (\<open>contract_data\<close>: balance and decimals of each token in
  turn, absent until loaded).
\<close>

record swap_state =
  fromAmount :: string
  accountAddress :: "string option"
  fromToken :: token
  contract_data :: "int list option"

text \<open>
  \<open>tokens.findIndex((t) => t.symbol === fromToken.symbol)\<close> is \<open>-1\<close> when no token has the
  symbol; \<open>Number(data?.[index * 2 + 1] ?? 18)\<close> is 18 when the data or the entry is absent.
\<close>

fun findIndex_symbol :: "token list \<Rightarrow> string \<Rightarrow> int" where
  "findIndex_symbol [] s = -1"
| "findIndex_symbol (t # ts) s =
     (if symbol t = s then 0
      else (let k = findIndex_symbol ts s in if k < 0 then -1 else k + 1))"

definition decimals_of :: "swap_state \<Rightarrow> nat" where
  "decimals_of st =
     (let k = findIndex_symbol tokens (symbol (fromToken st)) * 2 + 1 in
      case contract_data st of
        None \<Rightarrow> 18
      | Some xs \<Rightarrow> if 0 \<le> k \<and> nat k < length xs then nat (xs ! nat k) else 18)"

text \<open>\<open>json.error || fallback\<close>: the fallback when the member is absent or empty.\<close>

definition error_or :: "string option \<Rightarrow> string \<Rightarrow> string" where
  "error_or e fallback = (case e of None \<Rightarrow> fallback | Some m \<Rightarrow> if m = [] then fallback else m)"

text \<open>The \<open>try\<close> block of \<open>handleSwap\<close>, steps 1 to 6 of the source.\<close>

definition handleSwap_try :: "client_env \<Rightarrow> swap_state \<Rightarrow> (cevent, unit) prog" where
  "handleSwap_try cenv st =
     bind_prog (perform (\<lambda>_. parseUnits cenv (fromAmount st) (decimals_of st))
                 (ParseUnits (fromAmount st) (decimals_of st))) (\<lambda>amountBigInt.
     bind_prog (perform (\<lambda>_. encodeFunctionData cenv (Approve MOCK_SWAP_ADDRESS amountBigInt))
                 (EncodeFunctionData (Approve MOCK_SWAP_ADDRESS amountBigInt))) (\<lambda>approveData.
     bind_prog (perform (\<lambda>l. fetch cenv l
                   [\<lparr>to = address (fromToken st), data = approveData, req_value = None\<rparr>])
                 (Fetch [\<lparr>to = address (fromToken st), data = approveData, req_value = None\<rparr>]))
       (\<lambda>approveRes_ok.
     bind_prog (perform (res_json cenv) ResJson) (\<lambda>approveJson_error.
     bind_prog (if \<not> approveRes_ok
                then throw (Exn ''Error'' (error_or approveJson_error ''Approve step failed''))
                else return ()) (\<lambda>_.
     bind_prog (pollForAllowance cenv (env_string (accountAddress st)) MOCK_SWAP_ADDRESS
                  amountBigInt (address (fromToken st)) None) (\<lambda>allowanceOk.
     bind_prog (if \<not> allowanceOk
                then throw (Exn ''Error'' ''Allowance did not update in time.'')
                else return ()) (\<lambda>_.
     bind_prog (perform (\<lambda>_. encodeFunctionData cenv (SwapAToB amountBigInt))
                 (EncodeFunctionData (SwapAToB amountBigInt))) (\<lambda>swapData.
     bind_prog (perform (\<lambda>l. fetch cenv l
                   [\<lparr>to = MOCK_SWAP_ADDRESS, data = swapData, req_value = None\<rparr>])
                 (Fetch [\<lparr>to = MOCK_SWAP_ADDRESS, data = swapData, req_value = None\<rparr>]))
       (\<lambda>swapRes_ok.
     bind_prog (perform (res_json cenv) ResJson) (\<lambda>swapJson_error.
     bind_prog (if \<not> swapRes_ok
                then throw (Exn ''Error'' (error_or swapJson_error ''Swap step failed''))
                else return ()) (\<lambda>_.
     emit (SetSwapStatus Success))))))))))))"

text \<open>
  \<open>handleSwap\<close> returns at once when no amount is typed or no account is loaded; otherwise
  it sets the two flags, runs the block, turns any error into the \<open>error\<close> status, and
  clears \<open>isSwapping\<close> in its \<open>finally\<close>. Its result is the log of what it did.
\<close>

definition handleSwap :: "client_env \<Rightarrow> swap_state \<Rightarrow> cevent list" where
  "handleSwap cenv st =
     (if fromAmount st = [] \<or> falsy (accountAddress st) then []
      else
        snd (try_catch (handleSwap_try cenv st)
               (\<lambda>err.
                  bind_prog (emit (ConsoleErrorSwap ''Swap error:'' err)) (\<lambda>_.
                  emit (SetSwapStatus Failed)))
               [SetIsSwapping True, SetSwapStatus Pending])
        @ [SetIsSwapping False])"

section \<open>Reading a log\<close>

text \<open>Which events of the endpoint's log are submissions, allowance reads, waits, timers.\<close>

fun is_send :: "event \<Rightarrow> bool" where
  "is_send (SendUserOperation _ _) = True"
| "is_send _ = False"

fun is_read :: "event \<Rightarrow> bool" where
  "is_read (ReadContract _ _ _ _) = True"
| "is_read _ = False"

fun is_wait :: "event \<Rightarrow> bool" where
  "is_wait (WaitForUserOperationReceipt _ _) = True"
| "is_wait _ = False"

fun is_timer :: "event \<Rightarrow> bool" where
  "is_timer (SetTimeout _) = True"
| "is_timer _ = False"

definition submissions :: "event list \<Rightarrow> event list" where
  "submissions log = filter is_send log"

text \<open>An event whose outside call threw.\<close>

fun threw :: "event \<Rightarrow> bool" where
  "threw (ReqJson r) = isl r"
| "threw (PrivateKeyToAccount _ r) = isl r"
| "threw (CreatePublicClient _ r) = isl r"
| "threw (SignerToEcdsaValidator r) = isl r"
| "threw (CreateKernelAccount r) = isl r"
| "threw (CreateZeroDevPaymasterClient _ r) = isl r"
| "threw (CreateKernelAccountClient _ r) = isl r"
| "threw (EncodeCalls _ r) = isl r"
| "threw (SendUserOperation _ r) = isl r"
| "threw (WaitForUserOperationReceipt _ r) = isl r"
| "threw (SetTimeout _) = False"
| "threw (ReadContract _ _ _ r) = isl r"
| "threw (ConsoleError _ _) = False"

text \<open>
  Shorthands for the call \<open>{to, value: BigInt(0), data}\<close> built from a call of the body and
  for a user operation with \<open>preVerificationGas: BigInt(70000)\<close>, and the log of the
  construction steps when each of them succeeded.
\<close>

abbreviation zero_value_call :: "req_call \<Rightarrow> sub_call" where
  "zero_value_call c \<equiv> \<lparr>sub_to = to c, sub_value = 0, sub_data = data c\<rparr>"

abbreviation gas_70000 :: "op_payload \<Rightarrow> userop" where
  "gas_70000 p \<equiv> \<lparr>op_payload = p, preVerificationGas = 70000\<rparr>"

definition setup_events :: "env \<Rightarrow> req_call list option \<Rightarrow> string \<Rightarrow> event list" where
  "setup_events env body account =
     [ReqJson (Inr body),
      PrivateKeyToAccount (env_string (PRIVATE_KEY env)) (Inr ()),
      CreatePublicClient (env_string (ZERODEV_RPC env)) (Inr ()),
      SignerToEcdsaValidator (Inr ()),
      CreateKernelAccount (Inr account),
      CreateZeroDevPaymasterClient (env_string (ZERODEV_RPC env)) (Inr ()),
      CreateKernelAccountClient (env_string (ZERODEV_RPC env)) (Inr ())]"

fun is_setup :: "event \<Rightarrow> bool" where
  "is_setup (ReqJson _) = True"
| "is_setup (PrivateKeyToAccount _ _) = True"
| "is_setup (CreatePublicClient _ _) = True"
| "is_setup (SignerToEcdsaValidator _) = True"
| "is_setup (CreateKernelAccount _) = True"
| "is_setup (CreateZeroDevPaymasterClient _ _) = True"
| "is_setup (CreateKernelAccountClient _ _) = True"
| "is_setup _ = False"

text \<open>
  What it means for an event to carry only calls of native value zero: the calls given to
  \<open>encodeCalls\<close> and the calls of a submission all have value zero, and the \<open>callData\<close> of a
  submission is what some \<open>encodeCalls\<close> of the same log returned for calls of value zero.
\<close>

definition all_value_zero :: "sub_call list \<Rightarrow> bool" where
  "all_value_zero cs = list_all (\<lambda>c. sub_value c = 0) cs"

fun encodes_value_zero :: "string \<Rightarrow> event \<Rightarrow> bool" where
  "encodes_value_zero cd (EncodeCalls cs (Inr cd')) = (cd' = cd \<and> all_value_zero cs)"
| "encodes_value_zero cd _ = False"

fun value_zero_event :: "event list \<Rightarrow> event \<Rightarrow> bool" where
  "value_zero_event log (EncodeCalls cs _) = all_value_zero cs"
| "value_zero_event log (SendUserOperation uop _) =
     (case op_payload uop of
        Calls cs \<Rightarrow> all_value_zero cs
      | CallData cd \<Rightarrow> list_ex (encodes_value_zero cd) log)"
| "value_zero_event log _ = True"

section \<open>A stub chain client\<close>

text \<open>
  The scenario of the specification: approve 100 of the first token to the swap contract
  (\<open>approve(address,uint256)\<close>, selector \<open>095ea7b3\<close>, amount \<open>0x64\<close>), then
  \<open>swapAToB(100)\<close> on the swap contract. The second call carries a \<open>value\<close> of 5 that the caller
  added. In \<open>stub_env\<close> every outside call succeeds, the first submission gets the handle
  \<open>0xop1\<close> and any later one \<open>0xop2\<close>, and every allowance read gives the value chosen.
\<close>

definition scenario_approve_data :: string where
  "scenario_approve_data =
     ''0x095ea7b3000000000000000000000000718421bb9a6bb63d4a63295d59c12196c3e221ed0000000000000000000000000000000000000000000000000000000000000064''"

definition scenario_swap_data :: string where
  "scenario_swap_data =
     ''0x38720f720000000000000000000000000000000000000000000000000000000000000064''"

definition scenario_calls :: "req_call list" where
  "scenario_calls =
     [\<lparr>to = ''0x6c6Dc940F2E6a27921df887AD96AE586abD8EfD8'', data = scenario_approve_data,
        req_value = None\<rparr>,
      \<lparr>to = MOCK_SWAP_ADDRESS, data = scenario_swap_data, req_value = Some 5\<rparr>]"

definition stub_env :: "req_call list option \<Rightarrow> int \<Rightarrow> env" where
  "stub_env body allowance =
     \<lparr>PRIVATE_KEY = Some ''0xkey'',
      ZERODEV_RPC = Some ''https://rpc'',
      req_json = (\<lambda>_. Inr body),
      privateKeyToAccount = (\<lambda>_ _. Inr ()),
      createPublicClient = (\<lambda>_ _. Inr ()),
      signerToEcdsaValidator = (\<lambda>_. Inr ()),
      createKernelAccount = (\<lambda>_. Inr ''0xaccount''),
      createZeroDevPaymasterClient = (\<lambda>_ _. Inr ()),
      createKernelAccountClient = (\<lambda>_ _. Inr ()),
      encodeCalls = (\<lambda>_ cs. Inr (concat (map sub_data cs))),
      sendUserOperation = (\<lambda>l _. Inr (if submissions l = [] then ''0xop1'' else ''0xop2'')),
      waitForUserOperationReceipt = (\<lambda>_ _. Inr ()),
      readContract = (\<lambda>_ _ _ _. Inr allowance)\<rparr>"

text \<open>The same stub with a receipt wait that times out, and with the signing key not set.\<close>

definition stub_env_wait_fails :: env where
  "stub_env_wait_fails =
     (stub_env (Some scenario_calls) 100)
       \<lparr>waitForUserOperationReceipt :=
          (\<lambda>_ _. Inl (Exn ''WaitForUserOperationReceiptTimeoutError''
                       ''Timed out while waiting for User Operation''))\<rparr>"

definition stub_env_no_key :: env where
  "stub_env_no_key = (stub_env (Some scenario_calls) 100)\<lparr>PRIVATE_KEY := None\<rparr>"

section \<open>Reading the client's log\<close>

text \<open>
  Which events of the client's log are allowance reads, round trips to the endpoint, and
  encodings of the swap call; \<open>read_below amount\<close> holds for a read that returned an
  allowance below the amount, \<open>read_at_least amount\<close> for one that returned at least it.
\<close>

fun is_allowance_read :: "cevent \<Rightarrow> bool" where
  "is_allowance_read (ReadAllowance _ _ _ _) = True"
| "is_allowance_read _ = False"

fun is_fetch :: "cevent \<Rightarrow> bool" where
  "is_fetch (Fetch _ _) = True"
| "is_fetch _ = False"

fun is_swap_encode :: "cevent \<Rightarrow> bool" where
  "is_swap_encode (EncodeFunctionData (SwapAToB _) _) = True"
| "is_swap_encode _ = False"

fun read_below :: "int \<Rightarrow> cevent \<Rightarrow> bool" where
  "read_below amount (ReadAllowance _ _ _ (Inr a)) = (a < amount)"
| "read_below amount _ = False"

fun read_at_least :: "int \<Rightarrow> cevent \<Rightarrow> bool" where
  "read_at_least amount (ReadAllowance _ _ _ (Inr a)) = (amount \<le> a)"
| "read_at_least amount _ = False"

text \<open>Reads spaced by timers of 2000 ms: after every read but the last comes such a timer.\<close>

fun spaced_2s :: "cevent list \<Rightarrow> bool" where
  "spaced_2s [] = True"
| "spaced_2s [ReadAllowance _ _ _ _] = True"
| "spaced_2s (ReadAllowance _ _ _ _ # Sleep ms # rest) = (ms = 2000 \<and> spaced_2s rest)"
| "spaced_2s _ = False"

text \<open>
  The events that a poll of at most \<open>n\<close> rounds can add to the log, with the result it then
  gives: the key is the token, the owner and the spender of the reads.
\<close>

fun poll_trace ::
  "int \<Rightarrow> string \<times> string \<times> string \<Rightarrow> nat \<Rightarrow> cevent list \<Rightarrow> exn + bool \<Rightarrow> bool" where
  "poll_trace amount k 0 new res = (new = [] \<and> res = Inr False)"
| "poll_trace amount k (Suc n) (ReadAllowance t ow sp (Inl e) # rest) res =
     ((t, ow, sp) = k \<and> rest = [] \<and> res = Inl e)"
| "poll_trace amount k (Suc n) (ReadAllowance t ow sp (Inr a) # rest) res =
     ((t, ow, sp) = k \<and>
      (if amount \<le> a then rest = [] \<and> res = Inr True
       else (case rest of
               Sleep ms # rest' \<Rightarrow> ms = 2000 \<and> poll_trace amount k n rest' res
             | _ \<Rightarrow> False)))"
| "poll_trace amount k (Suc n) _ res = False"

text \<open>
  The log of the first round trip when it succeeded, and the three events that end a
  \<open>handleSwap\<close> whose block threw.
\<close>

definition approve_round :: "swap_state \<Rightarrow> int \<Rightarrow> string \<Rightarrow> string option \<Rightarrow> cevent list" where
  "approve_round st amount approveData answer =
     [SetIsSwapping True, SetSwapStatus Pending,
      ParseUnits (fromAmount st) (decimals_of st) (Inr amount),
      EncodeFunctionData (Approve MOCK_SWAP_ADDRESS amount) (Inr approveData),
      Fetch [\<lparr>to = address (fromToken st), data = approveData, req_value = None\<rparr>] (Inr True),
      ResJson (Inr answer)]"

definition failed_with :: "exn \<Rightarrow> cevent list" where
  "failed_with e = [ConsoleErrorSwap ''Swap error:'' e, SetSwapStatus Failed, SetIsSwapping False]"

abbreviation swap_call :: "string \<Rightarrow> req_call list" where
  "swap_call swapData \<equiv> [\<lparr>to = MOCK_SWAP_ADDRESS, data = swapData, req_value = None\<rparr>]"

text \<open>
  A log in which the dependent submission is guarded: every submission after the first one
  comes after an event that satisfies \<open>P\<close>. The two flags say whether a submission was seen
  and whether such an event was seen. For the endpoint the submissions are the
  \<open>SendUserOperation\<close> events and the observations are the allowance reads; for the client
  the submissions are the round trips to the endpoint.
\<close>

fun dependent_after :: "('e \<Rightarrow> bool) \<Rightarrow> ('e \<Rightarrow> bool) \<Rightarrow> bool \<Rightarrow> bool \<Rightarrow> 'e list \<Rightarrow> bool" where
  "dependent_after is_sub P sent seen [] = True"
| "dependent_after is_sub P sent seen (ev # rest) =
     (if is_sub ev
      then (if sent then seen else True) \<and> dependent_after is_sub P True seen rest
      else dependent_after is_sub P sent (seen \<or> P ev) rest)"

fun observed_at_least :: "int \<Rightarrow> event \<Rightarrow> bool" where
  "observed_at_least amount (ReadContract _ _ _ (Inr a)) = (amount \<le> a)"
| "observed_at_least amount _ = False"

fun observed_nonzero :: "event \<Rightarrow> bool" where
  "observed_nonzero (ReadContract _ _ _ (Inr a)) = (a \<noteq> 0)"
| "observed_nonzero _ = False"

section \<open>A stub of the client's surroundings\<close>

text \<open>
  The page with the first token chosen, an amount of 0.0001 typed and six decimals loaded:
  100 units, the amount of the scenario. The stub parses that one amount, encodes the two
  calls of the scenario, gets an \<open>ok\<close> answer from every round trip, and reads the allowance
  that \<open>allowance_at\<close> gives for the log so far.
\<close>

definition stub_state :: swap_state where
  "stub_state =
     \<lparr>fromAmount = ''0.0001'', accountAddress = Some ''0xaccount'',
      fromToken = tokens ! 0, contract_data = Some [5000000, 6, 0, 18]\<rparr>"

definition stub_client :: "(cevent list \<Rightarrow> int) \<Rightarrow> client_env" where
  "stub_client allowance_at =
     \<lparr>parseUnits = (\<lambda>s d. if s = ''0.0001'' \<and> d = 6 then Inr 100
                          else Inl (Exn ''InvalidDecimalNumberError'' ''not a decimal number'')),
      encodeFunctionData = (\<lambda>f. case f of
                                  Approve sp a \<Rightarrow> Inr scenario_approve_data
                                | SwapAToB a \<Rightarrow> Inr scenario_swap_data),
      fetch = (\<lambda>_ _. Inr True),
      res_json = (\<lambda>_. Inr None),
      readAllowance = (\<lambda>l _ _ _. Inr (allowance_at l))\<rparr>"

text \<open>An allowance that stays at zero, and one that is 100 from the third read on.\<close>

definition never_updated :: "cevent list \<Rightarrow> int" where
  "never_updated l = 0"

definition updated_at_third_read :: "cevent list \<Rightarrow> int" where
  "updated_at_third_read l = (if length (filter is_allowance_read l) < 2 then 0 else 100)"

section \<open>Lemmas on the three blocks of POST\<close>

lemmas prog_defs = perform_def emit_def return_def throw_def bind_prog_def try_catch_def

lemmas POST_defs = POST_def POST_approve_def POST_swap_def POST_single_def prog_defs
  json_def json_status_def Let_def submissions_def

lemmas stub_defs = stub_env_def scenario_calls_def falsy_def env_string_def

text \<open>
  Each block of the handler ends in one of a few ways; the lemmas list them with the events
  the block adds to the log and the value it gives. No block lets an error out.
\<close>

lemma POST_approve_cases [consumes 1, case_names encode_failed send_failed wait_failed
    read_failed zero nonzero]:
  assumes "POST_approve env calls account l = (x, l')"
  obtains
    (encode_failed) e where
      "l' = l @ [EncodeCalls [zero_value_call (calls ! 0)] (Inl e),
                 ConsoleError ''Approve step failed:'' e]"
      "x = Inr (Some \<lparr>payload = Error (''Approve failed: '' @ message_or_String e), status = 500\<rparr>)"
  | (send_failed) cd e where
      "l' = l @ [EncodeCalls [zero_value_call (calls ! 0)] (Inr cd),
                 SendUserOperation (gas_70000 (CallData cd)) (Inl e),
                 ConsoleError ''Approve step failed:'' e]"
      "x = Inr (Some \<lparr>payload = Error (''Approve failed: '' @ message_or_String e), status = 500\<rparr>)"
  | (wait_failed) cd h e where
      "l' = l @ [EncodeCalls [zero_value_call (calls ! 0)] (Inr cd),
                 SendUserOperation (gas_70000 (CallData cd)) (Inr h),
                 WaitForUserOperationReceipt h (Inl e),
                 ConsoleError ''Approve step failed:'' e]"
      "x = Inr (Some \<lparr>payload = Error (''Approve failed: '' @ message_or_String e), status = 500\<rparr>)"
  | (read_failed) cd h e where
      "l' = l @ [EncodeCalls [zero_value_call (calls ! 0)] (Inr cd),
                 SendUserOperation (gas_70000 (CallData cd)) (Inr h),
                 WaitForUserOperationReceipt h (Inr ()),
                 SetTimeout 30000,
                 ReadContract (to (calls ! 0)) account (to (calls ! 1)) (Inl e),
                 ConsoleError ''Approve step failed:'' e]"
      "x = Inr (Some \<lparr>payload = Error (''Approve failed: '' @ message_or_String e), status = 500\<rparr>)"
  | (zero) cd h where
      "l' = l @ [EncodeCalls [zero_value_call (calls ! 0)] (Inr cd),
                 SendUserOperation (gas_70000 (CallData cd)) (Inr h),
                 WaitForUserOperationReceipt h (Inr ()),
                 SetTimeout 30000,
                 ReadContract (to (calls ! 0)) account (to (calls ! 1)) (Inr 0)]"
      "x = Inr (Some \<lparr>payload = Error ''Allowance not updated'', status = 400\<rparr>)"
  | (nonzero) cd h a where "a \<noteq> 0"
      "l' = l @ [EncodeCalls [zero_value_call (calls ! 0)] (Inr cd),
                 SendUserOperation (gas_70000 (CallData cd)) (Inr h),
                 WaitForUserOperationReceipt h (Inr ()),
                 SetTimeout 30000,
                 ReadContract (to (calls ! 0)) account (to (calls ! 1)) (Inr a)]"
      "x = Inr None"
  using assms
  by (auto simp: POST_approve_def prog_defs json_status_def Let_def
           split: if_splits sum.splits prod.splits)

lemma POST_swap_cases [consumes 1, case_names encode_failed send_failed sent]:
  assumes "POST_swap env calls l = (x, l')"
  obtains
    (encode_failed) e where
      "l' = l @ [EncodeCalls [zero_value_call (calls ! 1)] (Inl e),
                 ConsoleError ''Swap step failed:'' e]"
      "x = Inr \<lparr>payload = Error (''Swap failed: '' @ message_or_String e), status = 500\<rparr>"
  | (send_failed) cd e where
      "l' = l @ [EncodeCalls [zero_value_call (calls ! 1)] (Inr cd),
                 SendUserOperation (gas_70000 (CallData cd)) (Inl e),
                 ConsoleError ''Swap step failed:'' e]"
      "x = Inr \<lparr>payload = Error (''Swap failed: '' @ message_or_String e), status = 500\<rparr>"
  | (sent) cd h where
      "l' = l @ [EncodeCalls [zero_value_call (calls ! 1)] (Inr cd),
                 SendUserOperation (gas_70000 (CallData cd)) (Inr h)]"
      "x = Inr \<lparr>payload = UserOpHash h, status = 200\<rparr>"
  using assms
  by (auto simp: POST_swap_def prog_defs json_status_def json_def Let_def
           split: if_splits sum.splits prod.splits)

lemma POST_single_cases [consumes 1, case_names send_failed sent]:
  assumes "POST_single env calls l = (x, l')"
  obtains
    (send_failed) e where
      "l' = l @ [SendUserOperation (gas_70000 (Calls (map zero_value_call calls))) (Inl e),
                 ConsoleError ''Single call failed:'' e]"
      "x = Inr \<lparr>payload = Error (message_or_String e), status = 500\<rparr>"
  | (sent) h where
      "l' = l @ [SendUserOperation (gas_70000 (Calls (map zero_value_call calls))) (Inr h)]"
      "x = Inr \<lparr>payload = UserOpHash h, status = 200\<rparr>"
  using assms
  by (auto simp: POST_single_def prog_defs json_status_def json_def Let_def
           split: if_splits sum.splits prod.splits)

lemma POST_approve_not_Inl: "POST_approve env calls account l = (Inl e, l') \<Longrightarrow> False"
  by (erule POST_approve_cases) simp_all

lemma POST_swap_not_Inl: "POST_swap env calls l = (Inl e, l') \<Longrightarrow> False"
  by (erule POST_swap_cases) simp_all

lemma POST_single_not_Inl: "POST_single env calls l = (Inl e, l') \<Longrightarrow> False"
  by (erule POST_single_cases) simp_all

lemma POST_cases [consumes 1, case_names missing outer_error early swap single]:
  assumes "POST env = (r, log)"
  obtains
    (missing) "falsy (PRIVATE_KEY env) \<or> falsy (ZERODEV_RPC env)" "log = []"
      "r = Inr \<lparr>payload = Error ''Missing env vars'', status = 500\<rparr>"
  | (outer_error) pre e where
      "log = pre @ [ConsoleError ''API /api/smartaccount POST error:'' e]"
      "r = Inr \<lparr>payload = Error (message_or_String e), status = 500\<rparr>"
      "list_all is_setup pre"
      "list_ex threw pre \<or> (\<exists>account. pre = setup_events env None account)"
  | (early) calls account resp where "length calls = 2"
      "POST_approve env calls account (setup_events env (Some calls) account) = (Inr (Some resp), log)"
      "r = Inr resp"
  | (swap) calls account l1 where "length calls = 2"
      "POST_approve env calls account (setup_events env (Some calls) account) = (Inr None, l1)"
      "POST_swap env calls l1 = (r, log)"
  | (single) calls account where "length calls \<noteq> 2"
      "POST_single env calls (setup_events env (Some calls) account) = (r, log)"
  using assms
  by (auto simp: POST_def prog_defs json_status_def Let_def setup_events_def
           split: if_splits sum.splits prod.splits option.splits
           dest: POST_approve_not_Inl POST_swap_not_Inl POST_single_not_Inl)

lemma setup_no_effects:
  assumes "list_all is_setup pre"
  shows "filter is_send pre = []" "filter is_read pre = []" "filter is_timer pre = []"
    "filter is_wait pre = []"
  using assms by (induction pre; auto elim: is_setup.elims)+

lemma setup_value_zero: "is_setup ev \<Longrightarrow> value_zero_event log ev"
  by (cases ev) simp_all

section \<open>Runs of the stub\<close>

lemma POST_stub_zero:
  "POST (stub_env (Some scenario_calls) 0) =
     (Inr \<lparr>payload = Error ''Allowance not updated'', status = 400\<rparr>,
      setup_events (stub_env (Some scenario_calls) 0) (Some scenario_calls) ''0xaccount'' @
      [EncodeCalls [zero_value_call (scenario_calls ! 0)] (Inr scenario_approve_data),
       SendUserOperation (gas_70000 (CallData scenario_approve_data)) (Inr ''0xop1''),
       WaitForUserOperationReceipt ''0xop1'' (Inr ()),
       SetTimeout 30000,
       ReadContract (to (scenario_calls ! 0)) ''0xaccount'' (to (scenario_calls ! 1)) (Inr 0)])"
  by (simp add: POST_defs stub_defs setup_events_def)

lemma POST_stub_nonzero:
  "a \<noteq> 0 \<Longrightarrow> POST (stub_env (Some scenario_calls) a) =
     (Inr \<lparr>payload = UserOpHash ''0xop2'', status = 200\<rparr>,
      setup_events (stub_env (Some scenario_calls) a) (Some scenario_calls) ''0xaccount'' @
      [EncodeCalls [zero_value_call (scenario_calls ! 0)] (Inr scenario_approve_data),
       SendUserOperation (gas_70000 (CallData scenario_approve_data)) (Inr ''0xop1''),
       WaitForUserOperationReceipt ''0xop1'' (Inr ()),
       SetTimeout 30000,
       ReadContract (to (scenario_calls ! 0)) ''0xaccount'' (to (scenario_calls ! 1)) (Inr a),
       EncodeCalls [zero_value_call (scenario_calls ! 1)] (Inr scenario_swap_data),
       SendUserOperation (gas_70000 (CallData scenario_swap_data)) (Inr ''0xop2'')])"
  by (simp add: POST_defs stub_defs setup_events_def)

lemma POST_stub_single:
  "POST (stub_env (Some [c]) a) =
     (Inr \<lparr>payload = UserOpHash ''0xop1'', status = 200\<rparr>,
      setup_events (stub_env (Some [c]) a) (Some [c]) ''0xaccount'' @
      [SendUserOperation (gas_70000 (Calls [zero_value_call c])) (Inr ''0xop1'')])"
  by (simp add: POST_defs stub_defs setup_events_def)

lemma POST_stub_wait_fails:
  "POST stub_env_wait_fails =
     (Inr \<lparr>payload = Error ''Approve failed: Timed out while waiting for User Operation'',
           status = 500\<rparr>,
      setup_events stub_env_wait_fails (Some scenario_calls) ''0xaccount'' @
      [EncodeCalls [zero_value_call (scenario_calls ! 0)] (Inr scenario_approve_data),
       SendUserOperation (gas_70000 (CallData scenario_approve_data)) (Inr ''0xop1''),
       WaitForUserOperationReceipt ''0xop1''
         (Inl (Exn ''WaitForUserOperationReceiptTimeoutError''
                ''Timed out while waiting for User Operation'')),
       ConsoleError ''Approve step failed:''
         (Exn ''WaitForUserOperationReceiptTimeoutError''
            ''Timed out while waiting for User Operation'')])"
  by (simp add: POST_defs stub_defs setup_events_def stub_env_wait_fails_def
        message_or_String_def)

lemma GET_stub:
  "GET (stub_env body a) =
     (Inr \<lparr>payload = Address ''0xaccount'', status = 200\<rparr>,
      [PrivateKeyToAccount ''0xkey'' (Inr ()),
       CreatePublicClient ''https://rpc'' (Inr ()),
       SignerToEcdsaValidator (Inr ()),
       CreateKernelAccount (Inr ''0xaccount'')])"
  by (simp add: GET_def prog_defs json_def Let_def stub_defs)

section \<open>Missing configuration\<close>

text \<open>
  C4. When the private signing key or the RPC endpoint URL is absent from the process
  environment (not set, or set to the empty string), GET and POST both answer with status
  500 and the error body \<open>Missing env vars\<close>, and the log of the request is empty: no
  outside call of any kind was made.
\<close>

theorem missing_configuration_500:
  assumes "falsy (PRIVATE_KEY env) \<or> falsy (ZERODEV_RPC env)"
  shows "GET env = (Inr \<lparr>payload = Error ''Missing env vars'', status = 500\<rparr>, [])
       \<and> POST env = (Inr \<lparr>payload = Error ''Missing env vars'', status = 500\<rparr>, [])"
  using assms by (auto simp: GET_def POST_def return_def json_status_def)

theorem missing_configuration_500_witness:
  "falsy (PRIVATE_KEY stub_env_no_key)
   \<and> GET stub_env_no_key = (Inr \<lparr>payload = Error ''Missing env vars'', status = 500\<rparr>, [])
   \<and> POST stub_env_no_key = (Inr \<lparr>payload = Error ''Missing env vars'', status = 500\<rparr>, [])"
proof -
  have absent: "falsy (PRIVATE_KEY stub_env_no_key)"
    by (simp add: stub_env_no_key_def falsy_def)
  then have "falsy (PRIVATE_KEY stub_env_no_key) \<or> falsy (ZERODEV_RPC stub_env_no_key)" ..
  from missing_configuration_500 [OF this] absent show ?thesis by simp
qed

section \<open>The two-call batch\<close>

text \<open>
  C1. For a POST whose body holds two calls: when the allowance read of the request returned
  zero, the answer is \<open>{error: "Allowance not updated"}\<close> with status 400, and the log of the
  request holds exactly one submission. The log is the construction steps, then the encoding
  and the submission of call 0, the wait for its receipt, the timer and the read; nothing
  follows the read, so call 1 is neither encoded nor submitted.
\<close>

theorem zero_allowance_400:
  assumes "POST env = (r, log)"
    and "ReqJson (Inr (Some calls)) \<in> set log" and "length calls = 2"
    and "ReadContract tok owner spender (Inr 0) \<in> set log"
  shows "r = Inr \<lparr>payload = Error ''Allowance not updated'', status = 400\<rparr>
       \<and> length (submissions log) = 1
       \<and> (\<exists>account cd h. log = setup_events env (Some calls) account @
             [EncodeCalls [zero_value_call (calls ! 0)] (Inr cd),
              SendUserOperation (gas_70000 (CallData cd)) (Inr h),
              WaitForUserOperationReceipt h (Inr ()),
              SetTimeout 30000,
              ReadContract (to (calls ! 0)) account (to (calls ! 1)) (Inr 0)])"
  using assms
  by (elim POST_cases POST_approve_cases POST_swap_cases POST_single_cases)
     (auto simp: setup_events_def submissions_def list_all_iff)

theorem zero_allowance_400_witness:
  "ReqJson (Inr (Some scenario_calls)) \<in> set (snd (POST (stub_env (Some scenario_calls) 0)))
   \<and> length scenario_calls = 2
   \<and> ReadContract (to (scenario_calls ! 0)) ''0xaccount'' (to (scenario_calls ! 1)) (Inr 0)
        \<in> set (snd (POST (stub_env (Some scenario_calls) 0)))
   \<and> fst (POST (stub_env (Some scenario_calls) 0)) =
        Inr \<lparr>payload = Error ''Allowance not updated'', status = 400\<rparr>
   \<and> length (submissions (snd (POST (stub_env (Some scenario_calls) 0)))) = 1"
proof -
  let ?run = "POST (stub_env (Some scenario_calls) 0)"
  have run: "?run = (fst ?run, snd ?run)" by simp
  have body: "ReqJson (Inr (Some scenario_calls)) \<in> set (snd ?run)"
    by (simp add: POST_stub_zero setup_events_def)
  have two: "length scenario_calls = 2"
    by (simp add: scenario_calls_def)
  have zero: "ReadContract (to (scenario_calls ! 0)) ''0xaccount'' (to (scenario_calls ! 1))
                (Inr 0) \<in> set (snd ?run)"
    by (simp add: POST_stub_zero)
  from zero_allowance_400 [OF run body two zero] body two zero show ?thesis by blast
qed

text \<open>
  C2. For a POST whose body holds two calls: when the allowance read of the request returned
  a value other than zero and no outside call of the request threw, the log is the
  construction steps, then the encoding and the submission of call 0, the wait for its
  receipt, the timer, the read, and the encoding and the submission of call 1, in this order.
  The submission of call 1 is the last event (no wait for its receipt follows), and the
  answer is \<open>{userOpHash}\<close> with the handle that this second submission returned.
\<close>

theorem nonzero_allowance_both:
  assumes "POST env = (r, log)"
    and "ReqJson (Inr (Some calls)) \<in> set log" and "length calls = 2"
    and "ReadContract tok owner spender (Inr a) \<in> set log" and "a \<noteq> 0"
    and "\<not> list_ex threw log"
  shows "\<exists>account cd0 h0 cd1 h1.
           log = setup_events env (Some calls) account @
             [EncodeCalls [zero_value_call (calls ! 0)] (Inr cd0),
              SendUserOperation (gas_70000 (CallData cd0)) (Inr h0),
              WaitForUserOperationReceipt h0 (Inr ()),
              SetTimeout 30000,
              ReadContract tok owner spender (Inr a),
              EncodeCalls [zero_value_call (calls ! 1)] (Inr cd1),
              SendUserOperation (gas_70000 (CallData cd1)) (Inr h1)]
         \<and> r = Inr \<lparr>payload = UserOpHash h1, status = 200\<rparr>"
  using assms
  by (elim POST_cases POST_approve_cases POST_swap_cases POST_single_cases)
     (auto simp: setup_events_def submissions_def list_all_iff)

theorem nonzero_allowance_both_witness:
  "ReqJson (Inr (Some scenario_calls)) \<in> set (snd (POST (stub_env (Some scenario_calls) 100)))
   \<and> length scenario_calls = 2
   \<and> ReadContract (to (scenario_calls ! 0)) ''0xaccount'' (to (scenario_calls ! 1)) (Inr 100)
        \<in> set (snd (POST (stub_env (Some scenario_calls) 100)))
   \<and> (100 :: int) \<noteq> 0
   \<and> \<not> list_ex threw (snd (POST (stub_env (Some scenario_calls) 100)))
   \<and> fst (POST (stub_env (Some scenario_calls) 100)) =
        Inr \<lparr>payload = UserOpHash ''0xop2'', status = 200\<rparr>"
proof -
  let ?run = "POST (stub_env (Some scenario_calls) 100)"
  have run: "?run = (fst ?run, snd ?run)" by simp
  have body: "ReqJson (Inr (Some scenario_calls)) \<in> set (snd ?run)"
    by (simp add: POST_stub_nonzero setup_events_def)
  have two: "length scenario_calls = 2"
    by (simp add: scenario_calls_def)
  have read: "ReadContract (to (scenario_calls ! 0)) ''0xaccount'' (to (scenario_calls ! 1))
                (Inr 100) \<in> set (snd ?run)"
    by (simp add: POST_stub_nonzero)
  have nz: "(100 :: int) \<noteq> 0" by simp
  have quiet: "\<not> list_ex threw (snd ?run)"
    by (simp add: POST_stub_nonzero setup_events_def)
  from nonzero_allowance_both [OF run body two read nz quiet]
  have "\<exists>h1. fst ?run = Inr \<lparr>payload = UserOpHash h1, status = 200\<rparr>" by blast
  then have "fst ?run = Inr \<lparr>payload = UserOpHash ''0xop2'', status = 200\<rparr>"
    by (simp add: POST_stub_nonzero)
  with body two read nz quiet show ?thesis by blast
qed

text \<open>
  C7. For a POST whose body holds two calls: when the first submission of the request threw,
  or the wait for the receipt threw, the answer has status 500 and the error message
  \<open>Approve failed: \<close> followed by the message of the error, the log holds exactly one
  submission (that of call 0; call 1 is never submitted and nothing is tried again), and
  the log ends with the report of the error by the first \<open>catch\<close>.
\<close>

theorem approve_failure_500:
  assumes "POST env = (r, log)"
    and "ReqJson (Inr (Some calls)) \<in> set log" and "length calls = 2"
    and "(\<exists>rest. submissions log = SendUserOperation uop (Inl e) # rest)
         \<or> WaitForUserOperationReceipt h (Inl e) \<in> set log"
  shows "r = Inr \<lparr>payload = Error (''Approve failed: '' @ message_or_String e), status = 500\<rparr>
       \<and> length (submissions log) = 1
       \<and> last log = ConsoleError ''Approve step failed:'' e"
  using assms
  by (elim POST_cases POST_approve_cases POST_swap_cases POST_single_cases)
     (auto simp: setup_events_def submissions_def setup_no_effects list_all_iff)

theorem approve_failure_500_witness:
  "ReqJson (Inr (Some scenario_calls)) \<in> set (snd (POST stub_env_wait_fails))
   \<and> length scenario_calls = 2
   \<and> WaitForUserOperationReceipt ''0xop1''
        (Inl (Exn ''WaitForUserOperationReceiptTimeoutError''
               ''Timed out while waiting for User Operation''))
        \<in> set (snd (POST stub_env_wait_fails))
   \<and> fst (POST stub_env_wait_fails) =
        Inr \<lparr>payload = Error ''Approve failed: Timed out while waiting for User Operation'',
             status = 500\<rparr>
   \<and> length (submissions (snd (POST stub_env_wait_fails))) = 1"
proof -
  let ?run = "POST stub_env_wait_fails"
  let ?e = "Exn ''WaitForUserOperationReceiptTimeoutError''
              ''Timed out while waiting for User Operation''"
  have run: "?run = (fst ?run, snd ?run)" by simp
  have body: "ReqJson (Inr (Some scenario_calls)) \<in> set (snd ?run)"
    by (simp add: POST_stub_wait_fails setup_events_def)
  have two: "length scenario_calls = 2"
    by (simp add: scenario_calls_def)
  have wait: "WaitForUserOperationReceipt ''0xop1'' (Inl ?e) \<in> set (snd ?run)"
    by (simp add: POST_stub_wait_fails)
  then have failed: "(\<exists>rest. submissions (snd ?run) = SendUserOperation uop (Inl ?e) # rest)
      \<or> WaitForUserOperationReceipt ''0xop1'' (Inl ?e) \<in> set (snd ?run)" for uop ..
  from approve_failure_500 [OF run body two failed]
  have "fst ?run = Inr \<lparr>payload = Error (''Approve failed: '' @ message_or_String ?e),
                        status = 500\<rparr>"
    and "length (submissions (snd ?run)) = 1" by blast+
  with body two wait show ?thesis by (simp add: message_or_String_def)
qed

text \<open>
  C9. For a POST whose body holds two calls and whose first submission returned a handle:
  the next event after that submission is the wait for the receipt of that handle. When the
  wait threw, no timer and no allowance read follow. When it returned, the next two events
  are a timer of 30000 ms and then the allowance read, on the target of call 0, with the
  address of the derived account as owner and the target of call 1 as spender; no other timer
  and no other read follow, and none comes before: the construction steps hold none.
\<close>

theorem settle_delay_then_read:
  assumes "POST env = (r, log)"
    and "ReqJson (Inr (Some calls)) \<in> set log" and "length calls = 2"
    and "submissions log = SendUserOperation uop (Inr h) # rest"
  shows "\<exists>account cd rw post.
           log = setup_events env (Some calls) account @
                 [EncodeCalls [zero_value_call (calls ! 0)] (Inr cd),
                  SendUserOperation uop (Inr h),
                  WaitForUserOperationReceipt h rw] @ post
         \<and> (case rw of
               Inl e \<Rightarrow> filter is_read post = [] \<and> filter is_timer post = []
             | Inr _ \<Rightarrow> (\<exists>ra post'.
                   post = [SetTimeout 30000,
                           ReadContract (to (calls ! 0)) account (to (calls ! 1)) ra] @ post'
                 \<and> filter is_read post' = [] \<and> filter is_timer post' = []))"
  using assms
  by (elim POST_cases POST_approve_cases POST_swap_cases POST_single_cases)
     (auto simp: setup_events_def submissions_def setup_no_effects)

theorem settle_delay_then_read_witness:
  "ReqJson (Inr (Some scenario_calls)) \<in> set (snd (POST (stub_env (Some scenario_calls) 7)))
   \<and> length scenario_calls = 2
   \<and> submissions (snd (POST (stub_env (Some scenario_calls) 7))) =
       [SendUserOperation (gas_70000 (CallData scenario_approve_data)) (Inr ''0xop1''),
        SendUserOperation (gas_70000 (CallData scenario_swap_data)) (Inr ''0xop2'')]
   \<and> (\<exists>pre post. snd (POST (stub_env (Some scenario_calls) 7)) =
         pre @ [SendUserOperation (gas_70000 (CallData scenario_approve_data)) (Inr ''0xop1''),
                WaitForUserOperationReceipt ''0xop1'' (Inr ()),
                SetTimeout 30000,
                ReadContract (to (scenario_calls ! 0)) ''0xaccount'' (to (scenario_calls ! 1))
                  (Inr 7)] @ post)"
proof -
  let ?run = "POST (stub_env (Some scenario_calls) 7)"
  have run: "?run = (fst ?run, snd ?run)" by simp
  have body: "ReqJson (Inr (Some scenario_calls)) \<in> set (snd ?run)"
    by (simp add: POST_stub_nonzero setup_events_def)
  have two: "length scenario_calls = 2"
    by (simp add: scenario_calls_def)
  have subs: "submissions (snd ?run) =
       SendUserOperation (gas_70000 (CallData scenario_approve_data)) (Inr ''0xop1'') #
       [SendUserOperation (gas_70000 (CallData scenario_swap_data)) (Inr ''0xop2'')]"
    by (simp add: POST_stub_nonzero setup_events_def submissions_def)
  have shape: "snd ?run =
      (setup_events (stub_env (Some scenario_calls) 7) (Some scenario_calls) ''0xaccount'' @
       [EncodeCalls [zero_value_call (scenario_calls ! 0)] (Inr scenario_approve_data)]) @
      [SendUserOperation (gas_70000 (CallData scenario_approve_data)) (Inr ''0xop1''),
       WaitForUserOperationReceipt ''0xop1'' (Inr ()),
       SetTimeout 30000,
       ReadContract (to (scenario_calls ! 0)) ''0xaccount'' (to (scenario_calls ! 1)) (Inr 7)] @
      [EncodeCalls [zero_value_call (scenario_calls ! 1)] (Inr scenario_swap_data),
       SendUserOperation (gas_70000 (CallData scenario_swap_data)) (Inr ''0xop2'')]"
    by (simp add: POST_stub_nonzero)
  from settle_delay_then_read [OF run body two subs] obtain account cd rw post where
    "snd ?run =
       setup_events (stub_env (Some scenario_calls) 7) (Some scenario_calls) account @
       [EncodeCalls [zero_value_call (scenario_calls ! 0)] (Inr cd),
        SendUserOperation (gas_70000 (CallData scenario_approve_data)) (Inr ''0xop1''),
        WaitForUserOperationReceipt ''0xop1'' rw] @ post" by blast
  from shape have "\<exists>pre post. snd ?run =
         pre @ [SendUserOperation (gas_70000 (CallData scenario_approve_data)) (Inr ''0xop1''),
                WaitForUserOperationReceipt ''0xop1'' (Inr ()),
                SetTimeout 30000,
                ReadContract (to (scenario_calls ! 0)) ''0xaccount'' (to (scenario_calls ! 1))
                  (Inr 7)] @ post" by blast
  with body two subs show ?thesis by simp
qed

section \<open>Any other number of calls\<close>

text \<open>
  C3. For a POST whose body holds a number of calls other than two (one call, none, three
  or more): the log holds no allowance read, and at most one submission, which carries all
  the calls of the body together as one user operation, built by the client that was given
  the paymaster. When no outside call of the request threw, the log is the construction
  steps and then that one submission, and the answer is \<open>{userOpHash}\<close> with the handle the
  submission returned.
\<close>

theorem other_count_single_operation:
  assumes "POST env = (r, log)"
    and "ReqJson (Inr (Some calls)) \<in> set log" and "length calls \<noteq> 2"
  shows "filter is_read log = []
       \<and> (submissions log = [] \<or> (\<exists>res. submissions log =
             [SendUserOperation (gas_70000 (Calls (map zero_value_call calls))) res]))
       \<and> (list_ex threw log \<or> (\<exists>account h. log = setup_events env (Some calls) account @
             [SendUserOperation (gas_70000 (Calls (map zero_value_call calls))) (Inr h)]
             \<and> r = Inr \<lparr>payload = UserOpHash h, status = 200\<rparr>))"
  using assms
  by (elim POST_cases POST_approve_cases POST_swap_cases POST_single_cases)
     (auto simp: setup_events_def submissions_def setup_no_effects)

theorem other_count_single_operation_witness:
  "ReqJson (Inr (Some [scenario_calls ! 1]))
      \<in> set (snd (POST (stub_env (Some [scenario_calls ! 1]) 0)))
   \<and> length [scenario_calls ! 1] \<noteq> 2
   \<and> filter is_read (snd (POST (stub_env (Some [scenario_calls ! 1]) 0))) = []
   \<and> submissions (snd (POST (stub_env (Some [scenario_calls ! 1]) 0))) =
       [SendUserOperation (gas_70000 (Calls [zero_value_call (scenario_calls ! 1)]))
          (Inr ''0xop1'')]
   \<and> fst (POST (stub_env (Some [scenario_calls ! 1]) 0)) =
       Inr \<lparr>payload = UserOpHash ''0xop1'', status = 200\<rparr>"
proof -
  let ?run = "POST (stub_env (Some [scenario_calls ! 1]) 0)"
  have run: "?run = (fst ?run, snd ?run)" by simp
  have body: "ReqJson (Inr (Some [scenario_calls ! 1])) \<in> set (snd ?run)"
    by (simp add: POST_stub_single setup_events_def)
  have one: "length [scenario_calls ! 1] \<noteq> 2" by simp
  from other_count_single_operation [OF run body one]
  have "filter is_read (snd ?run) = []" by blast
  with body one show ?thesis
    by (simp add: POST_stub_single setup_events_def submissions_def)
qed

section \<open>Errors and values\<close>

text \<open>
  C8. Whatever the environment answers, GET and POST return a response and let no error
  out (their result is never \<open>Inl\<close>). The response of GET is \<open>{address}\<close> with status 200,
  and then no outside call threw, or \<open>{error}\<close> with status 500. The response of POST is
  \<open>{userOpHash}\<close> with status 200, or \<open>{error: "Allowance not updated"}\<close> with status 400,
  and in both cases no outside call threw, or \<open>{error}\<close> with status 500. So every error
  thrown by a step ends as an \<open>{error}\<close> response with status 500.
\<close>

theorem every_outcome_structured:
  "(\<exists>resp. fst (GET env) = Inr resp \<and>
      ((\<exists>a. resp = \<lparr>payload = Address a, status = 200\<rparr> \<and> \<not> list_ex threw (snd (GET env)))
       \<or> (\<exists>m. resp = \<lparr>payload = Error m, status = 500\<rparr>)))
   \<and> (\<exists>resp. fst (POST env) = Inr resp \<and>
      ((\<exists>h. resp = \<lparr>payload = UserOpHash h, status = 200\<rparr> \<and> \<not> list_ex threw (snd (POST env)))
       \<or> resp = \<lparr>payload = Error ''Allowance not updated'', status = 400\<rparr>
           \<and> \<not> list_ex threw (snd (POST env))
       \<or> (\<exists>m. resp = \<lparr>payload = Error m, status = 500\<rparr>)))"
proof
  show "\<exists>resp. fst (GET env) = Inr resp \<and>
      ((\<exists>a. resp = \<lparr>payload = Address a, status = 200\<rparr> \<and> \<not> list_ex threw (snd (GET env)))
       \<or> (\<exists>m. resp = \<lparr>payload = Error m, status = 500\<rparr>))"
    by (auto simp: GET_def prog_defs json_def json_status_def Let_def
             split: if_splits sum.splits prod.splits)
next
  obtain r log where run: "POST env = (r, log)" by (cases "POST env")
  from run have "\<exists>resp. r = Inr resp \<and>
      ((\<exists>h. resp = \<lparr>payload = UserOpHash h, status = 200\<rparr> \<and> \<not> list_ex threw log)
       \<or> resp = \<lparr>payload = Error ''Allowance not updated'', status = 400\<rparr>
           \<and> \<not> list_ex threw log
       \<or> (\<exists>m. resp = \<lparr>payload = Error m, status = 500\<rparr>))"
    by (elim POST_cases POST_approve_cases POST_swap_cases POST_single_cases)
       (auto simp: setup_events_def)
  with run show "\<exists>resp. fst (POST env) = Inr resp \<and>
      ((\<exists>h. resp = \<lparr>payload = UserOpHash h, status = 200\<rparr> \<and> \<not> list_ex threw (snd (POST env)))
       \<or> resp = \<lparr>payload = Error ''Allowance not updated'', status = 400\<rparr>
           \<and> \<not> list_ex threw (snd (POST env))
       \<or> (\<exists>m. resp = \<lparr>payload = Error m, status = 500\<rparr>))"
    by simp
qed

theorem every_outcome_structured_witness:
  "fst (GET stub_env_wait_fails) = Inr \<lparr>payload = Address ''0xaccount'', status = 200\<rparr>
   \<and> fst (POST stub_env_wait_fails) =
       Inr \<lparr>payload = Error ''Approve failed: Timed out while waiting for User Operation'',
            status = 500\<rparr>
   \<and> list_ex threw (snd (POST stub_env_wait_fails))"
proof -
  have get: "fst (GET stub_env_wait_fails) = Inr \<lparr>payload = Address ''0xaccount'', status = 200\<rparr>"
    by (simp add: GET_def prog_defs json_def Let_def stub_defs stub_env_wait_fails_def)
  from every_outcome_structured [of stub_env_wait_fails] get show ?thesis
    by (simp add: POST_stub_wait_fails setup_events_def)
qed

text \<open>
  C10. In the log of every POST, whatever \<open>value\<close> the calls of the body carry: the calls
  given to \<open>encodeCalls\<close> have value zero, the calls of a submission made with \<open>calls\<close> have
  value zero, and the \<open>callData\<close> of a submission made with \<open>callData\<close> is what
  \<open>encodeCalls\<close> returned, in the same log, for calls of value zero. These are the three
  places where the endpoint builds a call: approve, swap, and the single operation.
\<close>

theorem submitted_value_zero:
  assumes "POST env = (r, log)"
  shows "list_all (value_zero_event log) log"
  using assms
  by (elim POST_cases POST_approve_cases POST_swap_cases POST_single_cases)
     (auto simp: setup_events_def all_value_zero_def setup_value_zero list_all_iff)

theorem submitted_value_zero_witness:
  "req_value (scenario_calls ! 1) = Some 5
   \<and> SendUserOperation (gas_70000 (CallData scenario_swap_data)) (Inr ''0xop2'')
       \<in> set (snd (POST (stub_env (Some scenario_calls) 100)))
   \<and> list_all (value_zero_event (snd (POST (stub_env (Some scenario_calls) 100))))
       (snd (POST (stub_env (Some scenario_calls) 100)))"
proof -
  let ?run = "POST (stub_env (Some scenario_calls) 100)"
  have run: "?run = (fst ?run, snd ?run)" by simp
  have "req_value (scenario_calls ! 1) = Some 5"
    by (simp add: scenario_calls_def)
  moreover have "SendUserOperation (gas_70000 (CallData scenario_swap_data)) (Inr ''0xop2'')
       \<in> set (snd ?run)"
    by (simp add: POST_stub_nonzero)
  ultimately show ?thesis using submitted_value_zero [OF run] by simp
qed

section \<open>Lemmas on the allowance poll and on handleSwap\<close>

text \<open>
  The loop adds to the log what \<open>poll_trace\<close> describes, for the rounds that are left; the
  facts about the poll follow from that description by induction on the rounds.
\<close>

lemma loop_trace:
  "pollForAllowance_loop cenv owner spender amount tok m i l = (res, l') \<Longrightarrow>
   \<exists>new. l' = l @ new \<and> poll_trace amount (tok, owner, spender) (m - i) new res"
proof (induction cenv owner spender amount tok m i l rule: pollForAllowance_loop.induct)
  case (1 cenv owner spender amount tok m i l)
  show ?case
  proof (cases "i < m")
    case False
    with "1.prems" show ?thesis by simp
  next
    case True
    then have step: "m - i = Suc (m - (i + 1))" by simp
    show ?thesis
    proof (cases "readAllowance cenv l tok owner spender")
      case (Inl e)
      with True "1.prems" show ?thesis by (auto simp: step)
    next
      case (Inr a)
      show ?thesis
      proof (cases "amount \<le> a")
        case yes: True
        with True Inr "1.prems" show ?thesis
          by (auto simp: step)
      next
        case no: False
        with True Inr "1.prems" have
          "pollForAllowance_loop cenv owner spender amount tok m (i + 1)
             (l @ [ReadAllowance tok owner spender (Inr a), Sleep 2000]) = (res, l')"
          by simp
        from "1.IH" [OF True Inr no this] obtain new where
          "l' = (l @ [ReadAllowance tok owner spender (Inr a), Sleep 2000]) @ new"
          "poll_trace amount (tok, owner, spender) (m - (i + 1)) new res" by blast
        with no show ?thesis by (simp add: step)
      qed
    qed
  qed
qed

lemma poll_trace_reads:
  "poll_trace amount k n new res \<Longrightarrow> length (filter is_allowance_read new) \<le> n"
  by (induction amount k n new res rule: poll_trace.induct)
     (auto split: if_splits list.splits cevent.splits)

lemma poll_trace_spaced:
  "poll_trace amount k n new res \<Longrightarrow> spaced_2s new"
  by (induction amount k n new res rule: poll_trace.induct)
     (auto split: if_splits list.splits cevent.splits)

lemma poll_trace_stops:
  "poll_trace amount k n new res \<Longrightarrow> ev \<in> set new \<Longrightarrow> read_at_least amount ev \<Longrightarrow>
   res = Inr True \<and> last new = ev"
  by (induction amount k n new res rule: poll_trace.induct)
     (auto split: if_splits list.splits cevent.splits)

lemma poll_trace_below:
  "poll_trace amount k n new res \<Longrightarrow>
   length (filter (read_below amount) new) \<le> n \<and>
   (length (filter (read_below amount) new) = n \<longleftrightarrow> res = Inr False)"
  by (induction amount k n new res rule: poll_trace.induct)
     (auto split: if_splits list.splits cevent.splits)

lemma poll_trace_events:
  "poll_trace amount k n new res \<Longrightarrow>
   filter is_fetch new = [] \<and> \<not> list_ex is_swap_encode new"
  by (induction amount k n new res rule: poll_trace.induct)
     (auto split: if_splits list.splits cevent.splits)

lemma pollForAllowance_trace:
  "pollForAllowance cenv owner spender amount tok None l = (res, l') \<Longrightarrow>
   \<exists>new. l' = l @ new \<and> poll_trace amount (tok, owner, spender) 20 new res"
  using loop_trace [of cenv owner spender amount tok 20 0 l res l']
  by (simp add: pollForAllowance_def)

lemma handleSwap_cases [consumes 1, case_names idle before_poll poll_failed swap_failed success]:
  assumes "handleSwap cenv st = log"
  obtains
    (idle) "fromAmount st = [] \<or> falsy (accountAddress st)" "log = []"
  | (before_poll) pre e where
      "log = [SetIsSwapping True, SetSwapStatus Pending] @ pre @ failed_with e"
      "filter is_allowance_read pre = []" "length (filter is_fetch pre) \<le> 1"
      "\<not> list_ex is_swap_encode pre"
  | (poll_failed) amount approveData answer new res e where
      "log = approve_round st amount approveData answer @ new @ failed_with e"
      "poll_trace amount (address (fromToken st), env_string (accountAddress st), MOCK_SWAP_ADDRESS)
         20 new res"
      "res = Inl e \<or> res = Inr False \<and> e = Exn ''Error'' ''Allowance did not update in time.''"
  | (swap_failed) amount approveData answer new post e where
      "log = approve_round st amount approveData answer @ new @ post @ failed_with e"
      "poll_trace amount (address (fromToken st), env_string (accountAddress st), MOCK_SWAP_ADDRESS)
         20 new (Inr True)"
      "post = [EncodeFunctionData (SwapAToB amount) (Inl e)]
       \<or> (\<exists>swapData. post = [EncodeFunctionData (SwapAToB amount) (Inr swapData),
                              Fetch (swap_call swapData) (Inl e)])
       \<or> (\<exists>swapData ok. post = [EncodeFunctionData (SwapAToB amount) (Inr swapData),
                              Fetch (swap_call swapData) (Inr ok), ResJson (Inl e)])
       \<or> (\<exists>swapData answer'. post = [EncodeFunctionData (SwapAToB amount) (Inr swapData),
                              Fetch (swap_call swapData) (Inr False), ResJson (Inr answer')]
            \<and> e = Exn ''Error'' (error_or answer' ''Swap step failed''))"
  | (success) amount approveData answer new swapData answer' where
      "log = approve_round st amount approveData answer @ new @
             [EncodeFunctionData (SwapAToB amount) (Inr swapData),
              Fetch (swap_call swapData) (Inr True), ResJson (Inr answer'),
              SetSwapStatus Success, SetIsSwapping False]"
      "poll_trace amount (address (fromToken st), env_string (accountAddress st), MOCK_SWAP_ADDRESS)
         20 new (Inr True)"
  using assms
  apply (simp add: handleSwap_def handleSwap_try_def prog_defs Let_def
           split: if_splits sum.splits prod.splits)
  apply (auto simp: approve_round_def failed_with_def dest!: pollForAllowance_trace)
  done

lemma poll_trace_only:
  "poll_trace amount k n new res \<Longrightarrow> ev \<in> set new \<Longrightarrow> is_allowance_read ev \<or> ev = Sleep 2000"
  by (induction amount k n new res rule: poll_trace.induct)
     (auto split: if_splits list.splits cevent.splits)

lemma poll_trace_at_least:
  "poll_trace amount k n new res \<Longrightarrow> list_ex (read_at_least amount) new \<longleftrightarrow> res = Inr True"
  by (induction amount k n new res rule: poll_trace.induct)
     (auto split: if_splits list.splits cevent.splits)

lemma dependent_after_none:
  "filter is_sub l = [] \<Longrightarrow>
   dependent_after is_sub P sent seen (l @ rest) =
   dependent_after is_sub P sent (seen \<or> list_ex P l) rest"
  by (induction l arbitrary: seen) (auto split: if_splits)

lemma dependent_after_no_more:
  "filter is_sub l = [] \<Longrightarrow> dependent_after is_sub P sent seen l"
  by (induction l arbitrary: seen) (auto split: if_splits)

lemma dependent_after_one:
  "length (filter is_sub l) \<le> 1 \<Longrightarrow> dependent_after is_sub P False seen l"
  by (induction l arbitrary: seen) (auto split: if_splits simp: dependent_after_no_more)

lemma stub_decimals: "decimals_of stub_state = 6"
  by (simp add: decimals_of_def stub_state_def tokens_def)

lemma handleSwap_never_updated:
  "handleSwap (stub_client never_updated) stub_state =
     approve_round stub_state 100 scenario_approve_data None @
     concat (replicate 20
       [ReadAllowance (address (tokens ! 0)) ''0xaccount'' MOCK_SWAP_ADDRESS (Inr 0), Sleep 2000]) @
     failed_with (Exn ''Error'' ''Allowance did not update in time.'')"
  by (simp add: handleSwap_def handleSwap_try_def prog_defs Let_def pollForAllowance_def
        stub_client_def never_updated_def approve_round_def failed_with_def stub_decimals
        falsy_def env_string_def eval_nat_numeral)
     (simp add: stub_state_def)

lemma read_below_is_read: "read_below amount ev \<Longrightarrow> is_allowance_read ev"
  by (cases ev) simp_all

lemma no_reads_none_below:
  "filter is_allowance_read l = [] \<Longrightarrow> filter (read_below amount) l = []"
  by (auto simp: filter_empty_conv dest: read_below_is_read)

lemma approve_round_facts:
  "filter (read_below a) (approve_round st amount approveData answer) = []"
  "filter is_fetch (approve_round st amount approveData answer) =
     [Fetch [\<lparr>to = address (fromToken st), data = approveData, req_value = None\<rparr>] (Inr True)]"
  "\<not> list_ex is_swap_encode (approve_round st amount approveData answer)"
  "ParseUnits s d (Inr a) \<in> set (approve_round st amount approveData answer) \<longleftrightarrow>
     s = fromAmount st \<and> d = decimals_of st \<and> a = amount"
  by (auto simp: approve_round_def)

lemma failed_with_facts:
  "filter (read_below a) (failed_with e) = []"
  "filter is_fetch (failed_with e) = []"
  "\<not> list_ex is_swap_encode (failed_with e)"
  "ParseUnits s d r \<notin> set (failed_with e)"
  by (auto simp: failed_with_def)

lemma poll_trace_no_parse:
  "poll_trace amount k n new res \<Longrightarrow> ParseUnits s d r \<notin> set new"
  by (auto dest: poll_trace_only)

lemma pollForAllowance_updated:
  "pollForAllowance (stub_client updated_at_third_read) ''0xaccount'' MOCK_SWAP_ADDRESS 100
     (address (tokens ! 0)) None l =
   (if length (filter is_allowance_read l) = 0 then
     (Inr True, l @
       [ReadAllowance (address (tokens ! 0)) ''0xaccount'' MOCK_SWAP_ADDRESS (Inr 0), Sleep 2000,
        ReadAllowance (address (tokens ! 0)) ''0xaccount'' MOCK_SWAP_ADDRESS (Inr 0), Sleep 2000,
        ReadAllowance (address (tokens ! 0)) ''0xaccount'' MOCK_SWAP_ADDRESS (Inr 100)])
    else pollForAllowance (stub_client updated_at_third_read) ''0xaccount'' MOCK_SWAP_ADDRESS 100
     (address (tokens ! 0)) None l)"
  by (simp add: pollForAllowance_def stub_client_def updated_at_third_read_def)

lemma handleSwap_updated:
  "handleSwap (stub_client updated_at_third_read) stub_state =
     approve_round stub_state 100 scenario_approve_data None @
     [ReadAllowance (address (tokens ! 0)) ''0xaccount'' MOCK_SWAP_ADDRESS (Inr 0), Sleep 2000,
      ReadAllowance (address (tokens ! 0)) ''0xaccount'' MOCK_SWAP_ADDRESS (Inr 0), Sleep 2000,
      ReadAllowance (address (tokens ! 0)) ''0xaccount'' MOCK_SWAP_ADDRESS (Inr 100)] @
     [EncodeFunctionData (SwapAToB 100) (Inr scenario_swap_data),
      Fetch (swap_call scenario_swap_data) (Inr True), ResJson (Inr None),
      SetSwapStatus Success, SetIsSwapping False]"
  by (simp add: handleSwap_def handleSwap_try_def prog_defs Let_def pollForAllowance_def
        stub_client_def updated_at_third_read_def approve_round_def stub_decimals
        falsy_def env_string_def)
     (simp add: stub_state_def)

lemma never_updated_facts:
  "ParseUnits (fromAmount stub_state) (decimals_of stub_state) (Inr 100)
     \<in> set (handleSwap (stub_client never_updated) stub_state)"
  "length (filter (read_below 100) (handleSwap (stub_client never_updated) stub_state)) = 20"
  by (simp_all add: handleSwap_never_updated approve_round_def failed_with_def
        filter_concat length_concat)

lemma updated_facts:
  "ParseUnits (fromAmount stub_state) (decimals_of stub_state) (Inr 100)
     \<in> set (handleSwap (stub_client updated_at_third_read) stub_state)"
  "length (filter is_fetch (handleSwap (stub_client updated_at_third_read) stub_state)) = 2"
  by (simp_all add: handleSwap_updated approve_round_def)

section \<open>The client's poll\<close>

text \<open>
  C6. The poll of the client, called as \<open>handleSwap\<close> calls it (20 tries): it adds to the log
  at most 20 allowance reads, each read but the last followed by a timer of 2000 ms; it
  returns \<open>true\<close> exactly when a read returned at least the amount, and such a read is the
  last event of the poll (it returns at once); it returns \<open>false\<close> exactly when 20 reads
  returned less than the amount. In \<open>handleSwap\<close>, when 20 reads returned less than the
  parsed amount, the log is the first round trip, the poll, and then the report of the
  error \<open>Allowance did not update in time.\<close> with the status set to \<open>error\<close>: the log
  holds one round trip to the endpoint (the approve) and no encoding of the swap call.
\<close>

theorem allowance_poll_bounded:
  "(pollForAllowance cenv owner spender amount tok None l = (res, l') \<longrightarrow>
      (\<exists>new. l' = l @ new
         \<and> length (filter is_allowance_read new) \<le> 20
         \<and> spaced_2s new
         \<and> (list_ex (read_at_least amount) new \<longleftrightarrow> res = Inr True)
         \<and> (\<forall>ev \<in> set new. read_at_least amount ev \<longrightarrow> last new = ev)
         \<and> (length (filter (read_below amount) new) = 20 \<longleftrightarrow> res = Inr False)))
   \<and> (handleSwap cenv st = log
        \<and> ParseUnits (fromAmount st) (decimals_of st) (Inr wanted) \<in> set log
        \<and> length (filter (read_below wanted) log) = 20 \<longrightarrow>
      (\<exists>approveData answer new.
          log = approve_round st wanted approveData answer @ new @
                failed_with (Exn ''Error'' ''Allowance did not update in time.''))
      \<and> length (filter is_fetch log) = 1
      \<and> \<not> list_ex is_swap_encode log)"
proof (intro conjI impI)
  assume "pollForAllowance cenv owner spender amount tok None l = (res, l')"
  then obtain new where new: "l' = l @ new"
    and trace: "poll_trace amount (tok, owner, spender) 20 new res"
    by (blast dest: pollForAllowance_trace)
  from trace have "length (filter is_allowance_read new) \<le> 20"
    by (rule poll_trace_reads)
  moreover from trace have "spaced_2s new"
    by (rule poll_trace_spaced)
  moreover from trace have "list_ex (read_at_least amount) new \<longleftrightarrow> res = Inr True"
    by (rule poll_trace_at_least)
  moreover from trace have "\<forall>ev \<in> set new. read_at_least amount ev \<longrightarrow> last new = ev"
    by (blast dest: poll_trace_stops)
  moreover from trace have "length (filter (read_below amount) new) = 20 \<longleftrightarrow> res = Inr False"
    by (blast dest: poll_trace_below)
  ultimately show "\<exists>new. l' = l @ new
         \<and> length (filter is_allowance_read new) \<le> 20
         \<and> spaced_2s new
         \<and> (list_ex (read_at_least amount) new \<longleftrightarrow> res = Inr True)
         \<and> (\<forall>ev \<in> set new. read_at_least amount ev \<longrightarrow> last new = ev)
         \<and> (length (filter (read_below amount) new) = 20 \<longleftrightarrow> res = Inr False)"
    using new by blast
next
  assume hyp: "handleSwap cenv st = log
        \<and> ParseUnits (fromAmount st) (decimals_of st) (Inr wanted) \<in> set log
        \<and> length (filter (read_below wanted) log) = 20"
  then have run: "handleSwap cenv st = log"
    and parsed: "ParseUnits (fromAmount st) (decimals_of st) (Inr wanted) \<in> set log"
    and below: "length (filter (read_below wanted) log) = 20" by simp_all
  from run have "(\<exists>approveData answer new.
          log = approve_round st wanted approveData answer @ new @
                failed_with (Exn ''Error'' ''Allowance did not update in time.''))
      \<and> length (filter is_fetch log) = 1
      \<and> \<not> list_ex is_swap_encode log"
  proof (cases rule: handleSwap_cases)
    case idle
    with parsed show ?thesis by simp
  next
    case (before_poll pre e)
    with below show ?thesis
      by (simp add: no_reads_none_below failed_with_facts)
  next
    case (poll_failed amount approveData answer new res e)
    from parsed poll_failed(1,2) have same: "amount = wanted"
      by (auto simp: approve_round_facts failed_with_facts poll_trace_no_parse)
    from below poll_failed(1) have "length (filter (read_below wanted) new) = 20"
      by (simp add: approve_round_facts failed_with_facts)
    with poll_failed(2) same have "res = Inr False"
      by (blast dest: poll_trace_below)
    with poll_failed(3) have "e = Exn ''Error'' ''Allowance did not update in time.''"
      by auto
    with poll_failed(1,2) same show ?thesis
      by (auto simp: approve_round_facts failed_with_facts dest: poll_trace_events)
  next
    case (swap_failed amount approveData answer new post e)
    from parsed swap_failed have same: "amount = wanted"
      by (auto simp: approve_round_facts failed_with_facts poll_trace_no_parse)
    from swap_failed(3) have "filter (read_below wanted) post = []" by auto
    with below swap_failed(1) have "length (filter (read_below wanted) new) = 20"
      by (simp add: approve_round_facts failed_with_facts)
    with swap_failed(2) same show ?thesis
      by (auto dest: poll_trace_below)
  next
    case (success amount approveData answer new swapData answer')
    from parsed success have same: "amount = wanted"
      by (auto simp: approve_round_facts poll_trace_no_parse)
    from below success(1) have "length (filter (read_below wanted) new) = 20"
      by (simp add: approve_round_facts)
    with success(2) same show ?thesis
      by (auto dest: poll_trace_below)
  qed
  then show "\<exists>approveData answer new.
          log = approve_round st wanted approveData answer @ new @
                failed_with (Exn ''Error'' ''Allowance did not update in time.'')"
    and "length (filter is_fetch log) = 1" and "\<not> list_ex is_swap_encode log"
    by simp_all
qed

theorem allowance_poll_bounded_witness:
  "pollForAllowance (stub_client updated_at_third_read) ''0xaccount'' MOCK_SWAP_ADDRESS 100
       (address (tokens ! 0)) None [] =
     (Inr True,
      [ReadAllowance (address (tokens ! 0)) ''0xaccount'' MOCK_SWAP_ADDRESS (Inr 0), Sleep 2000,
       ReadAllowance (address (tokens ! 0)) ''0xaccount'' MOCK_SWAP_ADDRESS (Inr 0), Sleep 2000,
       ReadAllowance (address (tokens ! 0)) ''0xaccount'' MOCK_SWAP_ADDRESS (Inr 100)])
   \<and> ParseUnits (fromAmount stub_state) (decimals_of stub_state) (Inr 100)
        \<in> set (handleSwap (stub_client never_updated) stub_state)
   \<and> length (filter (read_below 100) (handleSwap (stub_client never_updated) stub_state)) = 20
   \<and> length (filter is_fetch (handleSwap (stub_client never_updated) stub_state)) = 1
   \<and> \<not> list_ex is_swap_encode (handleSwap (stub_client never_updated) stub_state)"
proof -
  let ?never = "handleSwap (stub_client never_updated) stub_state"
  have poll: "pollForAllowance (stub_client updated_at_third_read) ''0xaccount''
       MOCK_SWAP_ADDRESS 100 (address (tokens ! 0)) None [] =
     (Inr True,
      [ReadAllowance (address (tokens ! 0)) ''0xaccount'' MOCK_SWAP_ADDRESS (Inr 0), Sleep 2000,
       ReadAllowance (address (tokens ! 0)) ''0xaccount'' MOCK_SWAP_ADDRESS (Inr 0), Sleep 2000,
       ReadAllowance (address (tokens ! 0)) ''0xaccount'' MOCK_SWAP_ADDRESS (Inr 100)])"
    by (simp add: pollForAllowance_updated)
  have "handleSwap (stub_client never_updated) stub_state = ?never
        \<and> ParseUnits (fromAmount stub_state) (decimals_of stub_state) (Inr 100) \<in> set ?never
        \<and> length (filter (read_below 100) ?never) = 20"
    by (simp add: never_updated_facts)
  with allowance_poll_bounded [where cenv = "stub_client never_updated" and st = stub_state
      and log = ?never and wanted = 100]
  have "length (filter is_fetch ?never) = 1 \<and> \<not> list_ex is_swap_encode ?never"
    by blast
  with poll never_updated_facts show ?thesis by simp
qed

section \<open>The guard of the dependent call\<close>

text \<open>
  C5, as the specification states it, fails on the endpoint. The body is the scenario
  (approve 100, then swap 100) and the allowance read returns 1: the log holds one allowance
  read, which returned 1, and two submissions, so call 1 was submitted though no allowance
  of at least 100 was ever observed. The endpoint compares the allowance with zero only; it
  never looks into the data of a call for an amount.
\<close>

theorem swap_below_intended_amount:
  "length scenario_calls = 2
   \<and> ReqJson (Inr (Some scenario_calls)) \<in> set (snd (POST (stub_env (Some scenario_calls) 1)))
   \<and> filter is_read (snd (POST (stub_env (Some scenario_calls) 1))) =
       [ReadContract (to (scenario_calls ! 0)) ''0xaccount'' (to (scenario_calls ! 1)) (Inr 1)]
   \<and> length (submissions (snd (POST (stub_env (Some scenario_calls) 1)))) = 2
   \<and> \<not> dependent_after is_send (observed_at_least 100) False False
         (snd (POST (stub_env (Some scenario_calls) 1)))"
proof -
  have two: "length scenario_calls = 2"
    by (simp add: scenario_calls_def)
  then show ?thesis
    by (simp add: POST_stub_nonzero setup_events_def submissions_def)
qed

text \<open>
  C5, amended. In the log of every POST, a submission after the first one comes only after
  an allowance read that returned a value other than zero. In the log of every
  \<open>handleSwap\<close>, a round trip to the endpoint after the first one (the swap) comes only
  after an allowance read that returned at least the amount parsed from the input.
\<close>

theorem dependent_submission_guard:
  "(POST env = (r, log) \<longrightarrow> dependent_after is_send observed_nonzero False False log)
   \<and> (handleSwap cenv st = clog
        \<and> ParseUnits (fromAmount st) (decimals_of st) (Inr wanted) \<in> set clog \<longrightarrow>
      dependent_after is_fetch (read_at_least wanted) False False clog)"
proof (intro conjI impI)
  assume "POST env = (r, log)"
  then show "dependent_after is_send observed_nonzero False False log"
    by (elim POST_cases POST_approve_cases POST_swap_cases POST_single_cases)
       (auto simp: setup_events_def setup_no_effects dependent_after_no_more)
next
  assume "handleSwap cenv st = clog
        \<and> ParseUnits (fromAmount st) (decimals_of st) (Inr wanted) \<in> set clog"
  then have run: "handleSwap cenv st = clog"
    and parsed: "ParseUnits (fromAmount st) (decimals_of st) (Inr wanted) \<in> set clog"
    by simp_all
  from run show "dependent_after is_fetch (read_at_least wanted) False False clog"
  proof (cases rule: handleSwap_cases)
    case idle
    then show ?thesis by simp
  next
    case (before_poll pre e)
    then show ?thesis
      by (simp add: dependent_after_one failed_with_facts)
  next
    case (poll_failed amount approveData answer new res e)
    then show ?thesis
      by (auto simp: approve_round_facts failed_with_facts dest: poll_trace_events
               intro!: dependent_after_one)
  next
    case (swap_failed amount approveData answer new post e)
    from parsed swap_failed have same: "amount = wanted"
      by (auto simp: approve_round_facts failed_with_facts poll_trace_no_parse)
    from swap_failed(2) have seen: "list_ex (read_at_least amount) new"
      and none: "filter is_fetch new = []"
      by (simp_all add: poll_trace_at_least poll_trace_events)
    from swap_failed(1,3) same seen show ?thesis
      by (auto simp: approve_round_def failed_with_def dependent_after_none [OF none])
  next
    case (success amount approveData answer new swapData answer')
    from parsed success have same: "amount = wanted"
      by (auto simp: approve_round_facts poll_trace_no_parse)
    from success(2) have seen: "list_ex (read_at_least amount) new"
      and none: "filter is_fetch new = []"
      by (simp_all add: poll_trace_at_least poll_trace_events)
    from success(1) same seen show ?thesis
      by (auto simp: approve_round_def dependent_after_none [OF none])
  qed
qed

theorem dependent_submission_guard_witness:
  "length (submissions (snd (POST (stub_env (Some scenario_calls) 1)))) = 2
   \<and> dependent_after is_send observed_nonzero False False
        (snd (POST (stub_env (Some scenario_calls) 1)))
   \<and> ParseUnits (fromAmount stub_state) (decimals_of stub_state) (Inr 100)
        \<in> set (handleSwap (stub_client updated_at_third_read) stub_state)
   \<and> length (filter is_fetch (handleSwap (stub_client updated_at_third_read) stub_state)) = 2
   \<and> dependent_after is_fetch (read_at_least 100) False False
        (handleSwap (stub_client updated_at_third_read) stub_state)"
proof -
  let ?E = "stub_env (Some scenario_calls) 1"
  let ?C = "stub_client updated_at_third_read"
  have endpoint: "dependent_after is_send observed_nonzero False False (snd (POST ?E))"
    using dependent_submission_guard [where env = ?E and r = "fst (POST ?E)"
        and log = "snd (POST ?E)"]
    by simp
  have client: "dependent_after is_fetch (read_at_least 100) False False
          (handleSwap ?C stub_state)"
    using dependent_submission_guard [where cenv = ?C and st = stub_state
        and clog = "handleSwap ?C stub_state" and wanted = 100] updated_facts
    by blast
  have two: "length (submissions (snd (POST ?E))) = 2"
    by (simp add: POST_stub_nonzero submissions_def setup_events_def)
  from endpoint client two updated_facts show ?thesis by simp
qed

end
